theory Spec2Isabelle
  imports Main "HOL-Library.Sublist"
begin

section \<open>Errors, events and reports\<close>

text \<open>
  A Go \<open>error\<close> is an \<open>error option\<close>: \<open>None\<close> is \<open>nil\<close>.  \<open>ErrContainerNotFound\<close> and
  \<open>errDeferredResponse\<close> are the two sentinels the supervisor's handlers return;
  \<open>ENOENT\<close> is the error \<open>os.IsNotExist\<close> recognises; \<open>Err msg\<close> is any other error value.
  \<open>AlreadyActive\<close> is the error of the specification's taxonomy for a \<open>Create\<close> on an
  id that is still live.
\<close>

datatype error =
    ErrContainerNotFound
  | errDeferredResponse
  | AlreadyActive
  | ENOENT
  | Err string

definition IsNotExist :: "error \<Rightarrow> bool" where
  "IsNotExist e = (e = ENOENT)"

text \<open>
  Modelled from the spec: the event types \<open>{Start, Pause, Resume, Exit, ExitProcess, OOM}\<close>.
  The source compares \<open>e.Type\<close> with the constants \<open>StateExit\<close>, \<open>StatePause\<close>,
  \<open>StateResume\<close>, \<open>StateOOM\<close>, \<open>StateExitProcess\<close> and \<open>StateStart\<close>, whose declarations
  are in another file; \<open>StateOther s\<close> is any type string that is none of them.
\<close>

datatype state =
    StateStart
  | StatePause
  | StateResume
  | StateExit
  | StateExitProcess
  | StateOOM
  | StateOther string

text \<open>
  The name of a container's first process. The constant is declared in another file;
  only the concrete examples below look at its value.
\<close>

definition InitFriendlyName :: string where
  "InitFriendlyName = ''init''"

text \<open>\<open>containerd.Event\<close>: the fields \<open>handleEvent\<close> reads.\<close>

record Event =
  Id :: string
  Type :: state
  Pid :: string
  Status :: nat

text \<open>\<open>StateInfo\<close> with its embedded \<open>CommonStateInfo\<close>.\<close>

record StateInfo =
  State :: state
  SysPid :: nat
  ExitCode :: nat
  ProcessID :: string
  OOMKilled :: bool

section \<open>The operating system the code talks to\<close>

text \<open>
  The environment variables, the paths that exist, the contents of regular files, and the
  faults \<open>Lstat\<close> and the removal calls meet: \<open>lstat_fault\<close> and \<open>remove_fault\<close> give,
  per path, the error (other than not-exist) the call fails with.
\<close>

record os =
  environ :: "string \<rightharpoonup> string"
  paths :: "string list"
  contents :: "string \<rightharpoonup> string"
  lstat_fault :: "string \<rightharpoonup> error"
  remove_fault :: "string \<rightharpoonup> error"

definition Getenv :: "os \<Rightarrow> string \<Rightarrow> string" where
  "Getenv w k = (case environ w k of None \<Rightarrow> [] | Some v \<Rightarrow> v)"

definition Lstat :: "os \<Rightarrow> string \<Rightarrow> error option" where
  "Lstat w p =
     (case lstat_fault w p of
        Some e \<Rightarrow> Some e
      | None \<Rightarrow> if p \<in> set (paths w) then None else Some ENOENT)"

text \<open>\<open>under d p\<close>: \<open>p\<close> is the directory \<open>d\<close> or lies below it.\<close>

definition under :: "string \<Rightarrow> string \<Rightarrow> bool" where
  "under d p = (p = d \<or> prefix (d @ ''/'') p)"

text \<open>
  \<open>os.RemoveAll\<close>: removes the path and everything below it; a path that does not exist
  is not an error. A fault leaves the tree as it was.
\<close>

definition RemoveAll :: "os \<Rightarrow> string \<Rightarrow> error option \<times> os" where
  "RemoveAll w p =
     (case remove_fault w p of
        Some e \<Rightarrow> (Some e, w)
      | None \<Rightarrow> (None, w\<lparr>paths := filter (\<lambda>q. \<not> under p q) (paths w)\<rparr>))"

text \<open>\<open>os.Remove\<close>: removes one path; a path that does not exist is \<open>ENOENT\<close>.\<close>

definition Remove :: "os \<Rightarrow> string \<Rightarrow> error option \<times> os" where
  "Remove w p =
     (if p \<notin> set (paths w) then (Some ENOENT, w)
      else case remove_fault w p of
        Some e \<Rightarrow> (Some e, w)
      | None \<Rightarrow> (None, w\<lparr>paths := filter (\<lambda>q. q \<noteq> p) (paths w)\<rparr>))"

definition ReadFile :: "os \<Rightarrow> string \<Rightarrow> error + string" where
  "ReadFile w p = (case contents w p of None \<Rightarrow> Inl ENOENT | Some d \<Rightarrow> Inr d)"

section \<open>Containers and the client\<close>

text \<open>
  \<open>process\<close> is the struct a container embeds (through \<open>containerCommon\<close>) and keeps one
  of per additional process. \<open>fifo p i\<close> is the path of the named pipe of stream \<open>i\<close>
  (\<open>syscall.Stdin = 0\<close>, \<open>Stdout = 1\<close>, \<open>Stderr = 2\<close>); the method computing it is in
  another file, so the paths are data here.
\<close>

record process =
  containerID :: string
  friendlyName :: string
  systemPid :: nat
  dir :: string
  fifo :: "nat \<Rightarrow> string"

record container = process +
  processes :: "string \<rightharpoonup> process"
  oom :: bool
  runtime :: string
  runtimeArgs :: "string list"

datatype logline = Warnf string | Errorf string | Debugf string

text \<open>
  What the code does to the outside, in the order it does it: the calls of the client's
  collaborators, each with its arguments.
\<close>

datatype writer = Pipe nat | WriteCloserWrapper writer

record IOPipe =
  Stdin :: writer
  Stdout :: nat
  Stderr :: nat
  Terminal :: bool

record CreateContainerRequest =
  rId :: string
  rBundlePath :: string
  rStdin :: string
  rStdout :: string
  rStderr :: string
  rCheckpoint :: string
  rCheckpointDir :: string
  rNoPivotRoot :: bool
  rRuntime :: string
  rRuntimeArgs :: "string list"

type_synonym ref = nat

datatype effect =
    OpenFifos ref bool
  | AttachStdio IOPipe
  | CloseFifos IOPipe
  | CreateContainerRPC CreateContainerRequest
  | CloseReady
  | CancelCtx
  | StateChangedCall string StateInfo
  | PauseMonitorHandle ref state
  | ExitNotifierClose string

text \<open>
  The callback \<open>handleEvent\<close> hands to the per-key queue, as data: the closure captures
  the container pointer, the event and the report \<open>st\<close>.
\<close>

datatype queued = Queued ref Event StateInfo

text \<open>
  The client. Containers are objects on a heap (\<open>objs\<close>, by address) and the
  live-container table \<open>containers\<close> holds pointers, as \<open>map[string]*container\<close> does:
  a flag set through one pointer is seen through the table. \<open>q\<close> is the per-key queue,
  as the list of pending callbacks with their keys, oldest first. \<open>exitNotifiers\<close> maps
  an id to its notifier, \<open>True\<close> once closed.
\<close>

record client =
  objs :: "ref \<Rightarrow> container"
  containers :: "string \<rightharpoonup> ref"
  q :: "(string \<times> queued) list"
  exitNotifiers :: "string \<rightharpoonup> bool"
  world :: os
  logs :: "logline list"
  trace :: "effect list"

text \<open>
  Modelled from the spec: \<open>appendContainer\<close> and \<open>deleteContainer\<close>, the two membership
  changes of the live-container table (their bodies are in another file): registering
  stores the pointer under the container's id, deleting removes the id's entry.
\<close>

definition appendContainer :: "ref \<Rightarrow> client \<Rightarrow> client" where
  "appendContainer r c = c\<lparr>containers := (containers c)(containerID (objs c r) \<mapsto> r)\<rparr>"

definition deleteContainer :: "string \<Rightarrow> client \<Rightarrow> client" where
  "deleteContainer i c = c\<lparr>containers := (containers c)(i := None)\<rparr>"

text \<open>
  Modelled from the spec: the per-key serial queue (its code is in another file), of
  which \<open>handleEvent\<close> calls \<open>append\<close>. \<open>append(key, fn)\<close> schedules \<open>fn\<close>: the
  callback joins the queue behind every earlier one. The callbacks of one key run in
  the order of submission, one at a time, and different keys proceed independently: a
  turn of the worker of key \<open>k\<close> (\<open>q_step\<close> below) takes the oldest callback queued
  under \<open>k\<close>, whatever is queued under other keys.
\<close>

definition q_append :: "string \<Rightarrow> queued \<Rightarrow> client \<Rightarrow> client" where
  "q_append k f c = c\<lparr>q := q c @ [(k, f)]\<rparr>"

definition logf :: "logline \<Rightarrow> client \<Rightarrow> client" where
  "logf l c = c\<lparr>logs := logs c @ [l]\<rparr>"

definition emit :: "effect \<Rightarrow> client \<Rightarrow> client" where
  "emit x c = c\<lparr>trace := trace c @ [x]\<rparr>"

section \<open>clean and cleanProcess\<close>

text \<open>
  \<open>container.clean\<close>: nothing is done when \<open>LIBCONTAINERD_NOCLEAN\<close> is \<open>1\<close> or when the
  directory is absent; an \<open>Lstat\<close> or \<open>RemoveAll\<close> failure is returned.
\<close>

definition clean :: "ref \<Rightarrow> client \<Rightarrow> error option \<times> client" where
  "clean r c =
     (if Getenv (world c) ''LIBCONTAINERD_NOCLEAN'' = ''1'' then (None, c)
      else case Lstat (world c) (dir (objs c r)) of
        Some e \<Rightarrow> (if IsNotExist e then (None, c) else (Some e, c))
      | None \<Rightarrow>
          (case RemoveAll (world c) (dir (objs c r)) of
             (Some e, w') \<Rightarrow> (Some e, c\<lparr>world := w'\<rparr>)
           | (None, w') \<Rightarrow> (None, c\<lparr>world := w'\<rparr>)))"

text \<open>
  One round of the loop of \<open>cleanProcess\<close>: remove the pipe; a failure other than
  not-exist is a warning.
\<close>

definition removeFifo :: "string \<Rightarrow> string \<Rightarrow> client \<Rightarrow> client" where
  "removeFifo pid p c =
     (case Remove (world c) p of
        (Some e, w') \<Rightarrow>
          (if \<not> IsNotExist e
           then logf (Warnf (''libcontainerd: failed to remove '' @ p @ '' for process '' @ pid))
                  (c\<lparr>world := w'\<rparr>)
           else c\<lparr>world := w'\<rparr>)
      | (None, w') \<Rightarrow> c\<lparr>world := w'\<rparr>)"

definition setProcesses :: "ref \<Rightarrow> (string \<rightharpoonup> process) \<Rightarrow> client \<Rightarrow> client" where
  "setProcesses r ps c = c\<lparr>objs := (objs c)(r := (objs c r)\<lparr>processes := ps\<rparr>)\<rparr>"

definition cleanProcess :: "ref \<Rightarrow> string \<Rightarrow> client \<Rightarrow> client" where
  "cleanProcess r pid c =
     (let c1 = (case processes (objs c r) pid of
                  Some p \<Rightarrow> fold (\<lambda>i. removeFifo pid (fifo p i)) [0, 1, 2] c
                | None \<Rightarrow> c)
      in setProcesses r ((processes (objs c1 r))(pid := None)) c1)"

section \<open>handleEvent\<close>

text \<open>
  \<open>container.handleEvent\<close>. The per-container lock taken on entry and released on return
  orders this call against the other operations on the same id; in this sequential
  model it changes nothing. The progress lines printed to standard output are left out.
\<close>

definition setOOM :: "ref \<Rightarrow> client \<Rightarrow> client" where
  "setOOM r c = c\<lparr>objs := (objs c)(r := (objs c r)\<lparr>oom := True\<rparr>)\<rparr>"

definition report :: "container \<Rightarrow> Event \<Rightarrow> StateInfo" where
  "report ctr e =
     (let st = \<lparr>State = Type e, SysPid = 0, ExitCode = Status e, ProcessID = [],
                OOMKilled = (Type e = StateExit \<and> oom ctr)\<rparr>
      in if Type e = StateExit \<and> Pid e \<noteq> InitFriendlyName
         then st\<lparr>ProcessID := Pid e, State := StateExitProcess\<rparr>
         else st)"

definition handleEvent :: "ref \<Rightarrow> Event \<Rightarrow> client \<Rightarrow> error option \<times> client" where
  "handleEvent r e c =
     (if Type e \<in> {StateExit, StatePause, StateResume, StateOOM} then
        (let st = report (objs c r) e;
             c1 = (if Type e = StateOOM then setOOM r c else c);
             c2 = (if State st = StateExit then deleteContainer (Id e) (snd (clean r c1))
                   else if State st = StateExitProcess then cleanProcess r (ProcessID st) c1
                   else c1)
         in (None, q_append (Id e) (Queued r e st) c2))
      else (None, logf (Debugf ''libcontainerd: event unhandled'') c))"

text \<open>
  Running the queued callback: the report goes to \<open>backend.StateChanged\<close>, whose result
  is a parameter; a failure is logged. Then the pause monitor is told of a pause or a
  resume, and on an exit the id's notifier, when there is one, is closed.
\<close>

definition run_queued :: "(string \<Rightarrow> StateInfo \<Rightarrow> error option) \<Rightarrow> queued \<Rightarrow> client \<Rightarrow> client" where
  "run_queued StateChanged f c =
     (case f of Queued r e st \<Rightarrow>
        (let c1 = emit (StateChangedCall (Id e) st) c;
             c2 = (case StateChanged (Id e) st of
                     Some eErr \<Rightarrow> logf (Errorf ''libcontainerd: backend.StateChanged()'') c1
                   | None \<Rightarrow> c1);
             c3 = (if Type e = StatePause \<or> Type e = StateResume
                   then emit (PauseMonitorHandle r (Type e)) c2 else c2)
         in if Type e = StateExit then
              (case exitNotifiers c3 (Id e) of
                 Some b \<Rightarrow> emit (ExitNotifierClose (Id e))
                             (c3\<lparr>exitNotifiers := (exitNotifiers c3)(Id e \<mapsto> True)\<rparr>)
               | None \<Rightarrow> c3)
            else c3))"

text \<open>
  Modelled from the spec: the choice the worker of key \<open>k\<close> makes. \<open>take_first k xs\<close> is
  the oldest callback queued under \<open>k\<close>, and the queue without it.
\<close>

fun take_first :: "string \<Rightarrow> (string \<times> queued) list \<Rightarrow> (queued \<times> (string \<times> queued) list) option" where
  "take_first k [] = None"
| "take_first k ((k', f) # rest) =
     (if k' = k then Some (f, rest)
      else case take_first k rest of
             None \<Rightarrow> None
           | Some (g, rest') \<Rightarrow> Some (g, (k', f) # rest'))"

text \<open>
  Modelled from the spec: one turn of the queue's worker for key \<open>k\<close>: the oldest
  callback of that key leaves the queue and runs.
\<close>

definition q_step :: "(string \<Rightarrow> StateInfo \<Rightarrow> error option) \<Rightarrow> string \<Rightarrow> client \<Rightarrow> client" where
  "q_step StateChanged k c =
     (case take_first k (q c) of
        None \<Rightarrow> c
      | Some (f, rest) \<Rightarrow> run_queued StateChanged f (c\<lparr>q := rest\<rparr>))"


text \<open>
  A run of the event path: events delivered to containers (by pointer) and turns of the
  queue's workers (by key), in any interleaving.
\<close>

datatype step = Deliver ref Event | Drain string

fun run_steps :: "(string \<Rightarrow> StateInfo \<Rightarrow> error option) \<Rightarrow> step list \<Rightarrow> client \<Rightarrow> client" where
  "run_steps StateChanged [] c = c"
| "run_steps StateChanged (Deliver r e # xs) c =
     run_steps StateChanged xs (snd (handleEvent r e c))"
| "run_steps StateChanged (Drain k # xs) c =
     run_steps StateChanged xs (q_step StateChanged k c)"

section \<open>container.start\<close>

text \<open>
  The part of the persisted specification that \<open>start\<close> reads: \<open>spec.Process.Terminal\<close>.
\<close>

record Spec =
  ProcessTerminal :: bool

text \<open>
  The collaborators of \<open>start\<close>, as parameters: the JSON decoder; \<open>openFifos\<close> and
  \<open>closeFifos\<close> (their bodies are in another file), which work on the named-pipe files
  of the bundle directory and so take the paths that exist and return those that exist
  afterwards, \<open>openFifos\<close> with its result; the caller's stdio callback; the shim's
  create RPC, which per the interface \<open>CreateContainer(\<dots>) \<rightarrow> systemPid\<close> answers with
  the init process's system pid; and the backend's state-changed notification.
  The last three fields are the steps of \<open>Create\<close> that come before \<open>start\<close>:
  resolving the uid and gid from the specification, preparing the bundle directory
  owned by them, and persisting the specification to a file.
\<close>

record externals =
  Unmarshal :: "string \<Rightarrow> error + Spec"
  openFifos :: "ref \<Rightarrow> bool \<Rightarrow> string list \<Rightarrow> (error + IOPipe) \<times> string list"
  closeFifos :: "IOPipe \<Rightarrow> string list \<Rightarrow> string list"
  attachStdio :: "IOPipe \<Rightarrow> error option"
  CreateContainer :: "CreateContainerRequest \<Rightarrow> error + nat"
  StateChanged :: "string \<Rightarrow> StateInfo \<Rightarrow> error option"
  getRootIDs :: "string \<Rightarrow> error + nat \<times> nat"
  prepareBundleDir :: "nat \<Rightarrow> nat \<Rightarrow> string \<Rightarrow> os \<Rightarrow> error option \<times> os"
  persistSpec :: "string \<Rightarrow> string \<Rightarrow> os \<Rightarrow> error option \<times> os"

text \<open>The name of the specification file is a constant declared in another file.\<close>

definition configFilename :: string where
  "configFilename = ''config.json''"

text \<open>
  \<open>filepath.Join\<close> of two elements: the empty ones are dropped, the others joined by a
  slash, and the result cleaned as \<open>filepath.Clean\<close> does: runs of slashes collapse,
  \<open>.\<close> elements go, a \<open>..\<close> takes the element before it with it (or goes, at the root),
  and an empty result is \<open>.\<close>.
\<close>

fun split_slash :: "string \<Rightarrow> string \<Rightarrow> string list" where
  "split_slash cur [] = [rev cur]"
| "split_slash cur (x # xs) =
     (if x = CHR ''/'' then rev cur # split_slash [] xs else split_slash (x # cur) xs)"

fun resolve :: "bool \<Rightarrow> string list \<Rightarrow> string list \<Rightarrow> string list" where
  "resolve rooted st [] = rev st"
| "resolve rooted st (x # xs) =
     (if x = [] \<or> x = ''.'' then resolve rooted st xs
      else if x = ''..'' then
        (case st of
           [] \<Rightarrow> if rooted then resolve rooted [] xs else resolve rooted [''..''] xs
         | y # ys \<Rightarrow>
             if y = ''..'' then resolve rooted (''..'' # st) xs else resolve rooted ys xs)
      else resolve rooted (x # st) xs)"

fun join_with_slash :: "string list \<Rightarrow> string" where
  "join_with_slash [] = []"
| "join_with_slash [x] = x"
| "join_with_slash (x # y # ys) = x @ ''/'' @ join_with_slash (y # ys)"

definition Clean :: "string \<Rightarrow> string" where
  "Clean p =
     (let rooted = (case p of [] \<Rightarrow> False | x # _ \<Rightarrow> x = CHR ''/'');
          body = join_with_slash (resolve rooted [] (split_slash [] p))
      in if rooted then CHR ''/'' # body
         else if body = [] then ''.'' else body)"

definition Join :: "string \<Rightarrow> string \<Rightarrow> string" where
  "Join d f =
     (let elems = filter (\<lambda>x. x \<noteq> []) [d, f]
      in if elems = [] then [] else Clean (join_with_slash elems))"

text \<open>\<open>container.spec\<close>: read the file back and decode it.\<close>

definition spec :: "externals \<Rightarrow> ref \<Rightarrow> client \<Rightarrow> error + Spec" where
  "spec X r c =
     (case ReadFile (world c) (Join (dir (objs c r)) configFilename) of
        Inl err \<Rightarrow> Inl err
      | Inr dt \<Rightarrow>
          (case Unmarshal X dt of
             Inl err \<Rightarrow> Inl err
           | Inr sp \<Rightarrow> Inr sp))"

definition setSystemPid :: "ref \<Rightarrow> nat \<Rightarrow> client \<Rightarrow> client" where
  "setSystemPid r pid c = c\<lparr>objs := (objs c)(r := (objs c r)\<lparr>systemPid := pid\<rparr>)\<rparr>"

definition request :: "ref \<Rightarrow> string \<Rightarrow> string \<Rightarrow> client \<Rightarrow> CreateContainerRequest" where
  "request r checkpoint checkpointDir c =
     \<lparr>rId = containerID (objs c r),
      rBundlePath = dir (objs c r),
      rStdin = fifo (objs c r) 0,
      rStdout = fifo (objs c r) 1,
      rStderr = fifo (objs c r) 2,
      rCheckpoint = checkpoint,
      rCheckpointDir = checkpointDir,
      rNoPivotRoot = (Getenv (world c) ''DOCKER_RAMDISK'' \<noteq> []),
      rRuntime = runtime (objs c r),
      rRuntimeArgs = runtimeArgs (objs c r)\<rparr>"

text \<open>The stdin of the pipes handed to the callback is the wrapped writer.\<close>

definition wrapStdin :: "IOPipe \<Rightarrow> IOPipe" where
  "wrapStdin iopipe = iopipe\<lparr>Stdin := WriteCloserWrapper (Stdin iopipe)\<rparr>"

definition setPaths :: "string list \<Rightarrow> client \<Rightarrow> client" where
  "setPaths ps c = c\<lparr>world := (world c)\<lparr>paths := ps\<rparr>\<rparr>"

text \<open>The call of \<open>closeFifos\<close>: recorded, with what it does to the files.\<close>

definition doCloseFifos :: "externals \<Rightarrow> IOPipe \<Rightarrow> client \<Rightarrow> client" where
  "doCloseFifos X iopipe c =
     setPaths (closeFifos X iopipe (paths (world c))) (emit (CloseFifos iopipe) c)"

text \<open>
  \<open>container.start\<close>, branch by branch. The deferred \<open>cancel()\<close> runs on every return
  after the context was made; the ten-second sleep before the last call has no effect
  on the state. The goroutine of the stdin wrapper is the subject of the last section.
\<close>

definition start :: "externals \<Rightarrow> ref \<Rightarrow> string \<Rightarrow> string \<Rightarrow> client \<Rightarrow> error option \<times> client" where
  "start X r checkpoint checkpointDir c =
     (case spec X r c of
        Inl err \<Rightarrow> (None, c)
      | Inr sp \<Rightarrow>
          (let opening = openFifos X r (ProcessTerminal sp) (paths (world c));
               c1 = setPaths (snd opening) (emit (OpenFifos r (ProcessTerminal sp)) c) in
           case fst opening of
             Inl err \<Rightarrow> (Some err, emit CancelCtx c1)
           | Inr opened \<Rightarrow>
               (let iopipe = wrapStdin opened;
                    req = request r checkpoint checkpointDir c1;
                    c2 = appendContainer r c1;
                    c3 = emit (AttachStdio iopipe) c2
                in case attachStdio X iopipe of
                     Some err \<Rightarrow> (Some err, emit CancelCtx (doCloseFifos X iopipe c3))
                   | None \<Rightarrow>
                       (let c4 = emit (CreateContainerRPC req) c3 in
                        case CreateContainer X req of
                          Inl err \<Rightarrow> (Some err, emit CancelCtx (doCloseFifos X iopipe c4))
                        | Inr pid \<Rightarrow>
                            (let c5 = emit CloseReady (setSystemPid r pid c4);
                                 st = \<lparr>State = StateStart, SysPid = systemPid (objs c5 r),
                                       ExitCode = 0, ProcessID = [], OOMKilled = False\<rparr>;
                                 c6 = emit (StateChangedCall (containerID (objs c5 r)) st) c5
                             in (StateChanged X (containerID (objs c5 r)) st,
                                 emit CancelCtx c6))))))"

section \<open>Create\<close>




section \<open>Supervisor.start\<close>

text \<open>
  The supervisor's own table and the handler of a \<open>StartTask\<close>. \<open>runtime.New\<close> belongs
  to another package and is a parameter; the container it builds is an opaque handle.
  Field names carry a prefix where the name is already taken above. The timers and the
  debug log file written by \<open>logPrintCreate\<close> are left out.
\<close>

type_synonym rcontainer = nat


record containerInfo =
  container :: rcontainer

record StartTask =
  ID :: string
  BundlePath :: string
  tStdout :: string
  tStderr :: string
  tStdin :: string
  Labels :: "string list"
  NoPivotRoot :: bool
  Checkpoint :: "string option"
  CheckpointDir :: string
  Runtime :: string
  RuntimeArgs :: "string list"

record startTask =
  Container :: rcontainer
  wStdin :: string
  wStdout :: string
  wStderr :: string
  CheckpointPath :: string

record Supervisor =
  stateDir :: string
  sRuntime :: string
  sRuntimeArgs :: "string list"
  shim :: string
  timeout :: nat
  sContainers :: "string \<rightharpoonup> containerInfo"
  startTasks :: "startTask list"
  ContainersCounter :: nat



section \<open>A concrete client\<close>

definition p1 :: process where
  "p1 = \<lparr>containerID = ''c1'', friendlyName = ''p1'', systemPid = 77, dir = ''/run/c1'',
         fifo = (\<lambda>i. if i = 0 then ''/run/c1/p1-stdin''
                     else if i = 1 then ''/run/c1/p1-stdout'' else ''/run/c1/p1-stderr'')\<rparr>"

definition ctr1 :: container where
  "ctr1 = \<lparr>containerID = ''c1'', friendlyName = ''init'', systemPid = 42, dir = ''/run/c1'',
           fifo = (\<lambda>i. if i = 0 then ''/run/c1/init-stdin''
                       else if i = 1 then ''/run/c1/init-stdout'' else ''/run/c1/init-stderr''),
           processes = [''p1'' \<mapsto> p1], oom = False, runtime = ''runc'', runtimeArgs = []\<rparr>"

definition w0 :: os where
  "w0 = \<lparr>environ = Map.empty,
         paths = [''/run/c1'', ''/run/c1/config.json'', ''/run/c1/p1-stdin''],
         contents = [''/run/c1/config.json'' \<mapsto> ''{}''],
         lstat_fault = Map.empty, remove_fault = Map.empty\<rparr>"

definition c0 :: client where
  "c0 = \<lparr>objs = (\<lambda>_. ctr1), containers = [''c1'' \<mapsto> 7], q = [],
         exitNotifiers = [''c1'' \<mapsto> False], world = w0, logs = [], trace = []\<rparr>"

definition exitInit :: Event where
  "exitInit = \<lparr>Id = ''c1'', Type = StateExit, Pid = ''init'', Status = 137\<rparr>"

definition exitP1 :: Event where
  "exitP1 = \<lparr>Id = ''c1'', Type = StateExit, Pid = ''p1'', Status = 1\<rparr>"

definition oomEv :: Event where
  "oomEv = \<lparr>Id = ''c1'', Type = StateOOM, Pid = ''init'', Status = 0\<rparr>"

definition pauseEv :: Event where
  "pauseEv = \<lparr>Id = ''c1'', Type = StatePause, Pid = ''init'', Status = 0\<rparr>"

definition cNoClean :: client where
  "cNoClean = c0\<lparr>world := w0\<lparr>environ := [''LIBCONTAINERD_NOCLEAN'' \<mapsto> ''1'']\<rparr>\<rparr>"


definition ctr2 :: container where
  "ctr2 = \<lparr>containerID = ''c2'', friendlyName = ''init'', systemPid = 0, dir = ''/run/c2'',
           fifo = (\<lambda>i. if i = 0 then ''/run/c2/init-stdin''
                       else if i = 1 then ''/run/c2/init-stdout'' else ''/run/c2/init-stderr''),
           processes = Map.empty, oom = False, runtime = ''runc'', runtimeArgs = []\<rparr>"

definition w2 :: os where
  "w2 = \<lparr>environ = Map.empty,
         paths = [''/run/c2'', ''/run/c2/config.json''],
         contents = [''/run/c2/config.json'' \<mapsto> ''{}''],
         lstat_fault = Map.empty, remove_fault = Map.empty\<rparr>"

definition cS :: client where
  "cS = \<lparr>objs = (\<lambda>_. ctr2), containers = Map.empty, q = [],
         exitNotifiers = Map.empty, world = w2, logs = [], trace = []\<rparr>"

definition cNoSpec :: client where
  "cNoSpec = cS\<lparr>world := w2\<lparr>paths := [''/run/c2''], contents := Map.empty\<rparr>\<rparr>"

text \<open>The pipe files of the container \<open>c2\<close>.\<close>

definition fifos2 :: "string list" where
  "fifos2 = [''/run/c2/init-stdin'', ''/run/c2/init-stdout'', ''/run/c2/init-stderr'']"

definition pipes0 :: IOPipe where
  "pipes0 = \<lparr>Stdin = Pipe 0, Stdout = 1, Stderr = 2, Terminal = False\<rparr>"

definition Xok :: externals where
  "Xok = \<lparr>Unmarshal = (\<lambda>_. Inr \<lparr>ProcessTerminal = False\<rparr>),
          openFifos = (\<lambda>_ _ ps. (Inr pipes0, ps @ fifos2)),
          closeFifos = (\<lambda>_ ps. ps),
          attachStdio = (\<lambda>_. None),
          CreateContainer = (\<lambda>_. Inr 4242),
          StateChanged = (\<lambda>_ _. None),
          getRootIDs = (\<lambda>_. Inr (0, 0)),
          prepareBundleDir = (\<lambda>_ _ d w. (None, w\<lparr>paths := paths w @ [d]\<rparr>)),
          persistSpec = (\<lambda>p dt w. (None, w\<lparr>paths := paths w @ [p],
                                              contents := (contents w)(p \<mapsto> dt)\<rparr>))\<rparr>"

definition XattachFails :: externals where
  "XattachFails = Xok\<lparr>attachStdio := (\<lambda>_. Some (Err ''attach failed''))\<rparr>"

definition t0 :: StartTask where
  "t0 = \<lparr>ID = ''c1'', BundlePath = ''/bundles/c1'', tStdout = ''/fifo/out'',
         tStderr = ''/fifo/err'', tStdin = ''/fifo/in'', Labels = [], NoPivotRoot = False,
         Checkpoint = None, CheckpointDir = [], Runtime = [], RuntimeArgs = []\<rparr>"




definition s0 :: Supervisor where
  "s0 = \<lparr>stateDir = ''/run/containerd'', sRuntime = ''runc'', sRuntimeArgs = [],
         shim = ''containerd-shim'', timeout = 15,
         sContainers = [''c1'' \<mapsto> \<lparr>container = 1\<rparr>], startTasks = [],
         ContainersCounter = 1\<rparr>"


section \<open>The stdin wrapper of start\<close>

text \<open>
  The writer \<open>start\<close> puts in place of the stdin pipe, with the goroutine its close
  function starts, as a transition system. The state holds \<open>stdinOnce\<close>, the number of
  calls of \<open>stdin.Close()\<close> on the underlying pipe, whether the channel \<open>ready\<close> has been
  closed and whether the context has been cancelled, the goroutines started (each at
  its first \<open>select\<close>, at its second, or finished) and the number of calls of
  \<open>sendCloseStdin\<close>.
\<close>

datatype goroutine = FirstSelect | SecondSelect | Finished

record wrapper =
  stdinOnce :: bool
  stdinCloses :: nat
  ready :: bool
  ctxDone :: bool
  goroutines :: "goroutine list"
  closeStdinSent :: nat

text \<open>
  The moves. \<open>CallClose\<close>: somebody calls \<open>Close\<close> on the wrapped writer; inside
  \<open>stdinOnce.Do\<close> the pipe is closed and the goroutine started, a later call finds the
  \<open>Once\<close> spent. \<open>Acknowledge\<close>: \<open>start\<close> executes \<open>close(ready)\<close> after the create RPC
  has answered; \<open>Return\<close>: \<open>start\<close> returns and its deferred \<open>cancel()\<close> runs. In
  \<open>start\<close>, \<open>close(ready)\<close> is executed at most once and only before the return, so
  \<open>Acknowledge\<close> is possible only while neither has happened. \<open>Run i\<close>: goroutine \<open>i\<close>
  takes its next step: it leaves the first \<open>select\<close> once \<open>ready\<close> is closed or the
  context is done, and at the second \<open>select\<close> sends the notification if \<open>ready\<close> is
  closed and otherwise takes the \<open>default\<close> branch.
\<close>

datatype action = CallClose | Acknowledge | Return | Run nat

fun wstep :: "action \<Rightarrow> wrapper \<Rightarrow> wrapper option" where
  "wstep CallClose s =
     Some (if stdinOnce s then s
           else s\<lparr>stdinOnce := True, stdinCloses := stdinCloses s + 1,
                  goroutines := goroutines s @ [FirstSelect]\<rparr>)"
| "wstep Acknowledge s =
     (if ready s \<or> ctxDone s then None else Some (s\<lparr>ready := True\<rparr>))"
| "wstep Return s =
     (if ctxDone s then None else Some (s\<lparr>ctxDone := True\<rparr>))"
| "wstep (Run i) s =
     (if i < length (goroutines s) then
        (case goroutines s ! i of
           FirstSelect \<Rightarrow>
             if ready s \<or> ctxDone s
             then Some (s\<lparr>goroutines := (goroutines s)[i := SecondSelect]\<rparr>)
             else None
         | SecondSelect \<Rightarrow>
             if ready s
             then Some (s\<lparr>closeStdinSent := closeStdinSent s + 1,
                          goroutines := (goroutines s)[i := Finished]\<rparr>)
             else Some (s\<lparr>goroutines := (goroutines s)[i := Finished]\<rparr>)
         | Finished \<Rightarrow> None)
      else None)"

fun wrun :: "action list \<Rightarrow> wrapper \<Rightarrow> wrapper option" where
  "wrun [] s = Some s"
| "wrun (a # as) s = (case wstep a s of None \<Rightarrow> None | Some s' \<Rightarrow> wrun as s')"

definition wrapper0 :: wrapper where
  "wrapper0 = \<lparr>stdinOnce = False, stdinCloses = 0, ready = False, ctxDone = False,
               goroutines = [], closeStdinSent = 0\<rparr>"

text \<open>What holds of every state the wrapper can reach.\<close>

definition winv :: "wrapper \<Rightarrow> bool" where
  "winv s =
     (if stdinOnce s
      then stdinCloses s = 1
         \<and> (goroutines s = [FirstSelect] \<and> closeStdinSent s = 0
            \<or> goroutines s = [SecondSelect] \<and> closeStdinSent s = 0
            \<or> goroutines s = [Finished] \<and> (closeStdinSent s = 0
                                             \<or> closeStdinSent s = 1 \<and> ready s))
      else stdinCloses s = 0 \<and> goroutines s = [] \<and> closeStdinSent s = 0)"
section \<open>Properties of the event path\<close>

lemma clean_fields:
  "objs (snd (clean r c)) = objs c"
  "containers (snd (clean r c)) = containers c"
  "q (snd (clean r c)) = q c"
  "logs (snd (clean r c)) = logs c"
  "trace (snd (clean r c)) = trace c"
  "exitNotifiers (snd (clean r c)) = exitNotifiers c"
  by (simp_all add: clean_def RemoveAll_def split: option.splits prod.splits)

lemma removeFifo_fields:
  "objs (removeFifo pid p c) = objs c"
  "containers (removeFifo pid p c) = containers c"
  "q (removeFifo pid p c) = q c"
  "trace (removeFifo pid p c) = trace c"
  "exitNotifiers (removeFifo pid p c) = exitNotifiers c"
  by (simp_all add: removeFifo_def logf_def Remove_def split: option.splits prod.splits)

lemma cleanProcess_fields:
  "containers (cleanProcess r pid c) = containers c"
  "q (cleanProcess r pid c) = q c"
  "trace (cleanProcess r pid c) = trace c"
  "exitNotifiers (cleanProcess r pid c) = exitNotifiers c"
  "objs (cleanProcess r pid c) =
     (objs c)(r := (objs c r)\<lparr>processes := (processes (objs c r))(pid := None)\<rparr>)"
  by (simp_all add: cleanProcess_def setProcesses_def Let_def removeFifo_fields
        split: option.splits)

lemma report_fields:
  "State (report ctr e) =
     (if Type e = StateExit \<and> Pid e \<noteq> InitFriendlyName then StateExitProcess else Type e)"
  "OOMKilled (report ctr e) = (Type e = StateExit \<and> oom ctr)"
  "ProcessID (report ctr e) =
     (if Type e = StateExit \<and> Pid e \<noteq> InitFriendlyName then Pid e else [])"
  "ExitCode (report ctr e) = Status e"
  by (simp_all add: report_def Let_def)



lemma handleEvent_q:
  "Type e \<in> {StateExit, StatePause, StateResume, StateOOM} \<Longrightarrow>
   q (snd (handleEvent r e c)) = q c @ [(Id e, Queued r e (report (objs c r) e))]"
  by (auto simp: handleEvent_def Let_def q_append_def deleteContainer_def setOOM_def
        clean_fields cleanProcess_fields report_fields)

lemma handleEvent_oom_mono:
  "oom (objs c r) \<Longrightarrow> oom (objs (snd (handleEvent r' e c)) r)"
  by (auto simp: handleEvent_def Let_def q_append_def deleteContainer_def setOOM_def
        clean_fields cleanProcess_fields report_fields logf_def)

lemma run_queued_fields:
  "objs (run_queued SC f c) = objs c"
  "containers (run_queued SC f c) = containers c"
  "world (run_queued SC f c) = world c"
  "q (run_queued SC f c) = q c"
  by (cases f; simp add: run_queued_def Let_def emit_def logf_def split: option.splits)+

lemma q_step_oom: "oom (objs (q_step SC k c) r) = oom (objs c r)"
  by (simp add: q_step_def run_queued_fields split: option.splits)

lemma run_steps_oom_mono:
  "oom (objs c r) \<Longrightarrow> oom (objs (run_steps SC xs c) r)"
proof (induction xs arbitrary: c)
  case Nil
  then show ?case by simp
next
  case (Cons x xs)
  show ?case
  proof (cases x)
    case (Deliver r' e)
    with Cons show ?thesis by (simp add: handleEvent_oom_mono)
  next
    case (Drain k)
    with Cons show ?thesis by (simp add: q_step_oom)
  qed
qed


lemma c0_simps:
  "objs c0 r = ctr1" "containers c0 = [''c1'' \<mapsto> 7]" "q c0 = []" "world c0 = w0"
  "logs c0 = []" "trace c0 = []" "exitNotifiers c0 = [''c1'' \<mapsto> False]"
  by (simp_all add: c0_def)

lemma ctr1_simps:
  "containerID ctr1 = ''c1''" "dir ctr1 = ''/run/c1''" "oom ctr1 = False"
  "processes ctr1 = [''p1'' \<mapsto> p1]" "systemPid ctr1 = 42"
  by (simp_all add: ctr1_def)

lemma w0_simps:
  "environ w0 = Map.empty" "lstat_fault w0 = Map.empty" "remove_fault w0 = Map.empty"
  "paths w0 = [''/run/c1'', ''/run/c1/config.json'', ''/run/c1/p1-stdin'']"
  "contents w0 = [''/run/c1/config.json'' \<mapsto> ''{}'']"
  by (simp_all add: w0_def)

lemma exitInit_simps:
  "Id exitInit = ''c1''" "Type exitInit = StateExit" "Pid exitInit = ''init''"
  "Status exitInit = 137"
  by (simp_all add: exitInit_def)

lemma exitP1_simps:
  "Id exitP1 = ''c1''" "Type exitP1 = StateExit" "Pid exitP1 = ''p1''" "Status exitP1 = 1"
  by (simp_all add: exitP1_def)

lemma oomEv_simps:
  "Id oomEv = ''c1''" "Type oomEv = StateOOM" "Pid oomEv = ''init''" "Status oomEv = 0"
  by (simp_all add: oomEv_def)

lemma pauseEv_simps:
  "Id pauseEv = ''c1''" "Type pauseEv = StatePause" "Pid pauseEv = ''init''"
  "Status pauseEv = 0"
  by (simp_all add: pauseEv_def)




text \<open>
  C4. Handling an OOM event sets the container's flag; the flag is still set after any
  further run of the event path (events for this or other containers, turns of the
  queue's worker); and an Exit event for the init process handled then queues a report
  with state Exit and \<open>OOMKilled\<close> set, which is the report the state-changed
  notification is called with.
\<close>

theorem oom_sticky:
  assumes "Type e = StateOOM"
    and "c1 = run_steps SC xs (snd (handleEvent r e c))"
    and "Type e' = StateExit" and "Pid e' = InitFriendlyName"
  shows "oom (objs (snd (handleEvent r e c)) r)
       \<and> oom (objs c1 r)
       \<and> (\<exists>st. State st = StateExit \<and> OOMKilled st
              \<and> q (snd (handleEvent r e' c1)) = q c1 @ [(Id e', Queued r e' st)]
              \<and> (\<forall>c2. StateChangedCall (Id e') st
                          \<in> set (trace (run_queued SC (Queued r e' st) c2))))"
proof -
  have s: "oom (objs (snd (handleEvent r e c)) r)"
    using assms(1)
    by (simp add: handleEvent_def Let_def report_fields q_append_def setOOM_def)
  then have k: "oom (objs c1 r)"
    unfolding assms(2) by (rule run_steps_oom_mono)
  let ?st = "report (objs c1 r) e'"
  have "State ?st = StateExit" "OOMKilled ?st"
    using assms(3,4) k by (simp_all add: report_fields)
  moreover have "q (snd (handleEvent r e' c1)) = q c1 @ [(Id e', Queued r e' ?st)]"
    using assms(3) by (simp add: handleEvent_q)
  moreover have "\<forall>c2. StateChangedCall (Id e') ?st
                          \<in> set (trace (run_queued SC (Queued r e' ?st) c2))"
    by (simp add: run_queued_def Let_def emit_def logf_def split: option.splits)
  ultimately show ?thesis using s k by blast
qed

theorem oom_sticky_witness:
  "oom (objs (run_steps (\<lambda>_ _. None) [Deliver 7 pauseEv, Drain ''c1'']
              (snd (handleEvent 7 oomEv c0))) 7)
   \<and> \<not> oom (objs c0 7)"
proof -
  have a: "Type oomEv = StateOOM" and b: "Type exitInit = StateExit"
    and d: "Pid exitInit = InitFriendlyName"
    by (simp_all add: oomEv_simps exitInit_simps InitFriendlyName_def)
  show ?thesis
    using oom_sticky [OF a refl b d, where SC = "\<lambda>_ _. None"
          and xs = "[Deliver 7 pauseEv, Drain ''c1'']" and r = 7 and c = c0]
    by (simp add: c0_simps ctr1_simps)
qed


text \<open>
  C6, as the code has it. The report queued for an event carries \<open>OOMKilled\<close> exactly
  when the event's type is Exit and the container's flag is set, whatever the event's
  pid: the reports for Paused, Resumed and OOM never carry it, and the report for an
  exited non-init process carries it whenever the flag is set.
\<close>

theorem report_oomkilled:
  assumes "Type e \<in> {StateExit, StatePause, StateResume, StateOOM}"
  shows "\<exists>st. q (snd (handleEvent r e c)) = q c @ [(Id e, Queued r e st)]
            \<and> (OOMKilled st \<longleftrightarrow> Type e = StateExit \<and> oom (objs c r))
            \<and> (State st \<in> {StatePause, StateResume, StateOOM} \<longrightarrow> \<not> OOMKilled st)
            \<and> (State st = StateExitProcess \<longrightarrow> OOMKilled st = oom (objs c r))"
proof -
  let ?st = "report (objs c r) e"
  have "q (snd (handleEvent r e c)) = q c @ [(Id e, Queued r e ?st)]"
    using assms by (rule handleEvent_q)
  moreover have "OOMKilled ?st \<longleftrightarrow> Type e = StateExit \<and> oom (objs c r)"
    by (simp add: report_fields)
  moreover have "State ?st \<in> {StatePause, StateResume, StateOOM} \<longrightarrow> \<not> OOMKilled ?st"
    by (auto simp: report_fields split: if_splits)
  moreover have "State ?st = StateExitProcess \<longrightarrow> OOMKilled ?st = oom (objs c r)"
    using assms by (auto simp: report_fields split: if_splits)
  ultimately show ?thesis by blast
qed

theorem report_oomkilled_witness:
  "\<exists>st. q (snd (handleEvent 7 pauseEv (snd (handleEvent 7 oomEv c0)))) =
           q (snd (handleEvent 7 oomEv c0)) @ [(''c1'', Queued 7 pauseEv st)]
       \<and> \<not> OOMKilled st"
proof -
  have a: "Type pauseEv \<in> {StateExit, StatePause, StateResume, StateOOM}"
    by (simp add: pauseEv_simps)
  show ?thesis
    using report_oomkilled [OF a, of 7 "snd (handleEvent 7 oomEv c0)"]
    by (auto simp: pauseEv_simps)
qed

theorem exitProcess_report_oom_counterexample:
  "oom (objs (snd (handleEvent 7 oomEv c0)) 7)
   \<and> last (q (snd (handleEvent 7 exitP1 (snd (handleEvent 7 oomEv c0))))) =
       (''c1'', Queued 7 exitP1
          \<lparr>State = StateExitProcess, SysPid = 0, ExitCode = 1, ProcessID = ''p1'',
           OOMKilled = True\<rparr>)"
proof -
  have o: "oom (objs (snd (handleEvent 7 oomEv c0)) 7)"
    by (simp add: handleEvent_def Let_def report_fields q_append_def setOOM_def oomEv_simps)
  have "q (snd (handleEvent 7 exitP1 (snd (handleEvent 7 oomEv c0)))) =
          q (snd (handleEvent 7 oomEv c0))
          @ [(Id exitP1, Queued 7 exitP1 (report (objs (snd (handleEvent 7 oomEv c0)) 7) exitP1))]"
    by (rule handleEvent_q) (simp add: exitP1_simps)
  moreover have "report (objs (snd (handleEvent 7 oomEv c0)) 7) exitP1 =
          \<lparr>State = StateExitProcess, SysPid = 0, ExitCode = 1, ProcessID = ''p1'',
           OOMKilled = True\<rparr>"
    using o by (simp add: report_def Let_def exitP1_simps InitFriendlyName_def)
  ultimately show ?thesis using o by (simp add: exitP1_simps)
qed

text \<open>
  C7. \<open>handleEvent\<close> returns \<open>nil\<close> for every event; an event of an unrecognised type
  only adds a debug line to the log. When the state-changed notification fails inside
  the queued callback, the failure is logged and the callback goes on: the container
  objects, the live table and the file system are as \<open>handleEvent\<close> left them, and the
  callback is not put back on the queue, which the key's worker leaves one entry shorter.
\<close>

theorem handleEvent_never_fails:
  "fst (handleEvent r e c) = None
   \<and> (Type e \<notin> {StateExit, StatePause, StateResume, StateOOM} \<longrightarrow>
        snd (handleEvent r e c) = logf (Debugf ''libcontainerd: event unhandled'') c)
   \<and> (SC (Id e) st = Some err \<longrightarrow>
        objs (run_queued SC (Queued r e st) c) = objs c
      \<and> containers (run_queued SC (Queued r e st) c) = containers c
      \<and> world (run_queued SC (Queued r e st) c) = world c
      \<and> q (run_queued SC (Queued r e st) c) = q c
      \<and> logs (run_queued SC (Queued r e st) c) =
          logs c @ [Errorf ''libcontainerd: backend.StateChanged()''])
   \<and> (q c = (k, Queued r e st) # rest \<longrightarrow> q (q_step SC k c) = rest)"
proof -
  have a: "fst (handleEvent r e c) = None"
    by (simp add: handleEvent_def Let_def)
  have b: "Type e \<notin> {StateExit, StatePause, StateResume, StateOOM} \<longrightarrow>
        snd (handleEvent r e c) = logf (Debugf ''libcontainerd: event unhandled'') c"
    by (simp add: handleEvent_def)
  have d: "SC (Id e) st = Some err \<longrightarrow>
        logs (run_queued SC (Queued r e st) c) =
          logs c @ [Errorf ''libcontainerd: backend.StateChanged()'']"
    by (simp add: run_queued_def Let_def emit_def logf_def split: option.splits)
  have f: "q c = (k, Queued r e st) # rest \<longrightarrow> q (q_step SC k c) = rest"
    by (simp add: q_step_def run_queued_fields)
  show ?thesis using a b d f by (simp add: run_queued_fields)
qed

theorem handleEvent_never_fails_witness:
  "fst (handleEvent 7 \<lparr>Id = ''c1'', Type = StateOther ''live'', Pid = ''init'', Status = 0\<rparr> c0)
     = None
   \<and> logs (snd (handleEvent 7
        \<lparr>Id = ''c1'', Type = StateOther ''live'', Pid = ''init'', Status = 0\<rparr> c0))
     = [Debugf ''libcontainerd: event unhandled'']
   \<and> containers (q_step (\<lambda>_ _. Some (Err ''backend down'')) ''c1''
        (snd (handleEvent 7 pauseEv c0))) ''c1'' = Some 7
   \<and> q (q_step (\<lambda>_ _. Some (Err ''backend down'')) ''c1'' (snd (handleEvent 7 pauseEv c0))) = []
   \<and> logs (q_step (\<lambda>_ _. Some (Err ''backend down'')) ''c1'' (snd (handleEvent 7 pauseEv c0)))
     = [Errorf ''libcontainerd: backend.StateChanged()'']"
proof -
  let ?e = "\<lparr>Id = ''c1'', Type = StateOther ''live'', Pid = ''init'', Status = 0\<rparr>"
  let ?SC = "\<lambda>(_::string) (_::StateInfo). Some (Err ''backend down'')"
  let ?c = "snd (handleEvent 7 pauseEv c0)"
  let ?st = "report (objs c0 7) pauseEv"
  have qc: "q ?c = [(''c1'', Queued 7 pauseEv ?st)]"
    using handleEvent_q [of pauseEv 7 c0] by (simp add: pauseEv_simps c0_simps)
  have step: "q_step ?SC ''c1'' ?c = run_queued ?SC (Queued 7 pauseEv ?st) (?c\<lparr>q := []\<rparr>)"
    unfolding q_step_def qc by simp
  have cc: "containers ?c = containers c0" "logs ?c = logs c0"
    by (simp_all add: handleEvent_def Let_def report_fields q_append_def pauseEv_simps)
  have u: "fst (handleEvent 7 ?e c0) = None
         \<and> snd (handleEvent 7 ?e c0) = logf (Debugf ''libcontainerd: event unhandled'') c0"
    using handleEvent_never_fails [of 7 ?e c0] by simp
  have v: "containers (run_queued ?SC (Queued 7 pauseEv ?st) (?c\<lparr>q := []\<rparr>)) = containers ?c
         \<and> q (run_queued ?SC (Queued 7 pauseEv ?st) (?c\<lparr>q := []\<rparr>)) = []
         \<and> logs (run_queued ?SC (Queued 7 pauseEv ?st) (?c\<lparr>q := []\<rparr>)) =
             logs ?c @ [Errorf ''libcontainerd: backend.StateChanged()'']"
    using handleEvent_never_fails [of 7 pauseEv "?c\<lparr>q := []\<rparr>" ?SC ?st "Err ''backend down''"]
    by simp
  show ?thesis
    using u v by (simp add: step cc c0_simps logf_def)
qed

text \<open>
  C10. \<open>clean\<close> returns \<open>nil\<close> and changes nothing when \<open>LIBCONTAINERD_NOCLEAN\<close> is \<open>1\<close>
  or when \<open>Lstat\<close> finds the directory absent; handling the init process's Exit event
  then still returns \<open>nil\<close> and removes the table entry, and leaves the file system as
  it was.
\<close>

theorem clean_conditional:
  assumes "Getenv (world c) ''LIBCONTAINERD_NOCLEAN'' = ''1''
           \<or> Lstat (world c) (dir (objs c r)) = Some ENOENT"
  shows "clean r c = (None, c)
       \<and> (Type e = StateExit \<and> Pid e = InitFriendlyName \<longrightarrow>
            fst (handleEvent r e c) = None
          \<and> world (snd (handleEvent r e c)) = world c
          \<and> containers (snd (handleEvent r e c)) = (containers c)(Id e := None))"
proof -
  have a: "clean r c = (None, c)"
    using assms by (auto simp: clean_def IsNotExist_def)
  then show ?thesis
    by (simp add: handleEvent_def Let_def report_fields q_append_def deleteContainer_def)
qed

theorem clean_conditional_witness:
  "fst (handleEvent 7 exitInit cNoClean) = None
   \<and> containers (snd (handleEvent 7 exitInit cNoClean)) ''c1'' = None
   \<and> ''/run/c1'' \<in> set (paths (world (snd (handleEvent 7 exitInit cNoClean))))"
proof -
  have a: "Getenv (world cNoClean) ''LIBCONTAINERD_NOCLEAN'' = ''1''
           \<or> Lstat (world cNoClean) (dir (objs cNoClean 7)) = Some ENOENT"
    by (simp add: cNoClean_def Getenv_def)
  show ?thesis
    using clean_conditional [OF a, of exitInit]
    by (simp add: exitInit_simps InitFriendlyName_def cNoClean_def w0_simps)
qed

section \<open>Properties of start\<close>

lemma start_spec_fails:
  "spec X r c = Inl e \<Longrightarrow> start X r cp cpd c = (None, c)"
  by (simp add: start_def)

lemma request_fields:
  "request r cp cpd (setPaths ps c) = request r cp cpd c"
  "request r cp cpd (emit x c) = request r cp cpd c"
  by (simp_all add: request_def setPaths_def emit_def Getenv_def)

lemma start_open_fails:
  assumes "spec X r c = Inr sp"
    and "fst (openFifos X r (ProcessTerminal sp) (paths (world c))) = Inl e"
  shows "fst (start X r cp cpd c) = Some e"
    and "trace (snd (start X r cp cpd c)) =
           trace c @ [OpenFifos r (ProcessTerminal sp), CancelCtx]"
    and "containers (snd (start X r cp cpd c)) = containers c"
    and "objs (snd (start X r cp cpd c)) = objs c"
    and "logs (snd (start X r cp cpd c)) = logs c"
    and "world (snd (start X r cp cpd c)) =
           (world c)\<lparr>paths := snd (openFifos X r (ProcessTerminal sp) (paths (world c)))\<rparr>"
  using assms by (simp_all add: start_def Let_def emit_def setPaths_def)

lemma start_attach_fails:
  assumes "spec X r c = Inr sp"
    and "fst (openFifos X r (ProcessTerminal sp) (paths (world c))) = Inr opened"
    and "attachStdio X (wrapStdin opened) = Some e"
  shows "fst (start X r cp cpd c) = Some e"
    and "trace (snd (start X r cp cpd c)) =
           trace c @ [OpenFifos r (ProcessTerminal sp), AttachStdio (wrapStdin opened),
                      CloseFifos (wrapStdin opened), CancelCtx]"
    and "containers (snd (start X r cp cpd c)) = (containers c)(containerID (objs c r) \<mapsto> r)"
    and "objs (snd (start X r cp cpd c)) = objs c"
    and "logs (snd (start X r cp cpd c)) = logs c"
    and "world (snd (start X r cp cpd c)) =
           (world c)\<lparr>paths := closeFifos X (wrapStdin opened)
                        (snd (openFifos X r (ProcessTerminal sp) (paths (world c))))\<rparr>"
  using assms
  by (simp_all add: start_def Let_def emit_def setPaths_def doCloseFifos_def
        appendContainer_def)

lemma start_create_fails:
  assumes "spec X r c = Inr sp"
    and "fst (openFifos X r (ProcessTerminal sp) (paths (world c))) = Inr opened"
    and "attachStdio X (wrapStdin opened) = None"
    and "CreateContainer X (request r cp cpd c) = Inl e"
  shows "fst (start X r cp cpd c) = Some e"
    and "trace (snd (start X r cp cpd c)) =
           trace c @ [OpenFifos r (ProcessTerminal sp), AttachStdio (wrapStdin opened),
                      CreateContainerRPC (request r cp cpd c),
                      CloseFifos (wrapStdin opened), CancelCtx]"
    and "containers (snd (start X r cp cpd c)) = (containers c)(containerID (objs c r) \<mapsto> r)"
    and "objs (snd (start X r cp cpd c)) = objs c"
    and "logs (snd (start X r cp cpd c)) = logs c"
    and "world (snd (start X r cp cpd c)) =
           (world c)\<lparr>paths := closeFifos X (wrapStdin opened)
                        (snd (openFifos X r (ProcessTerminal sp) (paths (world c))))\<rparr>"
  using assms
  by (simp_all add: start_def Let_def request_fields)
     (simp_all add: emit_def setPaths_def doCloseFifos_def appendContainer_def)

lemma start_created:
  assumes "spec X r c = Inr sp"
    and "fst (openFifos X r (ProcessTerminal sp) (paths (world c))) = Inr opened"
    and "attachStdio X (wrapStdin opened) = None"
    and "CreateContainer X (request r cp cpd c) = Inr pid"
  shows "fst (start X r cp cpd c) =
           StateChanged X (containerID (objs c r))
             \<lparr>State = StateStart, SysPid = pid, ExitCode = 0, ProcessID = [],
              OOMKilled = False\<rparr>"
    and "trace (snd (start X r cp cpd c)) =
           trace c @ [OpenFifos r (ProcessTerminal sp), AttachStdio (wrapStdin opened),
                      CreateContainerRPC (request r cp cpd c), CloseReady,
                      StateChangedCall (containerID (objs c r))
                        \<lparr>State = StateStart, SysPid = pid, ExitCode = 0, ProcessID = [],
                         OOMKilled = False\<rparr>,
                      CancelCtx]"
    and "containers (snd (start X r cp cpd c)) = (containers c)(containerID (objs c r) \<mapsto> r)"
    and "systemPid (objs (snd (start X r cp cpd c)) r) = pid"
    and "objs (snd (start X r cp cpd c)) = (objs c)(r := (objs c r)\<lparr>systemPid := pid\<rparr>)"
  using assms
  by (simp_all add: start_def Let_def request_fields)
     (simp_all add: emit_def setPaths_def appendContainer_def setSystemPid_def)

lemma cS_simps:
  "objs cS r = ctr2" "containers cS = Map.empty" "world cS = w2" "trace cS = []"
  by (simp_all add: cS_def)

lemma ctr2_simps:
  "containerID ctr2 = ''c2''" "dir ctr2 = ''/run/c2''" "systemPid ctr2 = 0"
  by (simp_all add: ctr2_def)

lemma spec_cS:
  "Unmarshal X = (\<lambda>_. Inr \<lparr>ProcessTerminal = False\<rparr>) \<Longrightarrow>
   spec X r cS = Inr \<lparr>ProcessTerminal = False\<rparr>"
  by (simp add: spec_def ReadFile_def cS_def w2_def ctr2_def Join_def Clean_def
        configFilename_def)

lemma spec_cNoSpec: "spec X r cNoSpec = Inl ENOENT"
  by (simp add: spec_def ReadFile_def cNoSpec_def)

lemma Xok_simps:
  "Unmarshal Xok = (\<lambda>_. Inr \<lparr>ProcessTerminal = False\<rparr>)"
  "openFifos Xok = (\<lambda>_ _ ps. (Inr pipes0, ps @ fifos2))"
  "closeFifos Xok = (\<lambda>_ ps. ps)"
  "getRootIDs Xok = (\<lambda>_. Inr (0, 0))"
  "attachStdio Xok = (\<lambda>_. None)"
  "CreateContainer Xok = (\<lambda>_. Inr 4242)"
  "StateChanged Xok = (\<lambda>_ _. None)"
  by (simp_all add: Xok_def)

lemma XattachFails_simps:
  "Unmarshal XattachFails = (\<lambda>_. Inr \<lparr>ProcessTerminal = False\<rparr>)"
  "openFifos XattachFails = (\<lambda>_ _ ps. (Inr pipes0, ps @ fifos2))"
  "closeFifos XattachFails = (\<lambda>_ ps. ps)"
  "attachStdio XattachFails = (\<lambda>_. Some (Err ''attach failed''))"
  by (simp_all add: XattachFails_def Xok_def)


text \<open>
  C8. Whatever the collaborators answer, a create RPC in the effects of \<open>start\<close> comes
  after the call of the stdio callback, which was given the pipes \<open>openFifos\<close> returned
  (stdin wrapped) and did not fail; and when the callback fails, \<open>start\<close> returns the
  callback's error, the pipes are closed right after the callback, and no create RPC is
  among the effects.
\<close>

theorem attachStdio_before_create:
  "\<exists>t. trace (snd (start X r cp cpd c)) = trace c @ t
     \<and> (\<forall>req. CreateContainerRPC req \<in> set t \<longrightarrow>
           (\<exists>sp opened pre post.
               spec X r c = Inr sp
             \<and> fst (openFifos X r (ProcessTerminal sp) (paths (world c))) = Inr opened
             \<and> attachStdio X (wrapStdin opened) = None
             \<and> t = pre @ AttachStdio (wrapStdin opened) # post
             \<and> CreateContainerRPC req \<notin> set pre
             \<and> CreateContainerRPC req \<in> set post))
     \<and> (\<forall>sp opened e.
           spec X r c = Inr sp
           \<and> fst (openFifos X r (ProcessTerminal sp) (paths (world c))) = Inr opened
           \<and> attachStdio X (wrapStdin opened) = Some e \<longrightarrow>
             fst (start X r cp cpd c) = Some e
           \<and> (\<forall>req. CreateContainerRPC req \<notin> set t)
           \<and> (\<exists>pre post. t = pre @ AttachStdio (wrapStdin opened)
                                  # CloseFifos (wrapStdin opened) # post))"
  (is "\<exists>t. ?A t \<and> ?B t \<and> ?C t")
proof (cases "spec X r c")
  case (Inl e)
  have "?A []" using Inl by (simp add: start_spec_fails)
  moreover have "?B []" by simp
  moreover have "?C []" using Inl by simp
  ultimately show ?thesis by (intro exI [of _ "[]"] conjI)
next
  case (Inr sp)
  note sp = this
  show ?thesis
  proof (cases "fst (openFifos X r (ProcessTerminal sp) (paths (world c)))")
    case (Inl e)
    let ?t = "[OpenFifos r (ProcessTerminal sp), CancelCtx]"
    have "?A ?t" by (simp add: start_open_fails(2) [OF sp Inl])
    moreover have "?B ?t" by simp
    moreover have "?C ?t" using sp Inl by simp
    ultimately show ?thesis by (intro exI [of _ ?t] conjI)
  next
    case (Inr opened)
    note op = this
    define io where "io = wrapStdin opened"
    define b where "b = ProcessTerminal sp"
    show ?thesis
    proof (cases "attachStdio X io")
      case (Some e)
      then have at: "attachStdio X (wrapStdin opened) = Some e" by (simp add: io_def)
      define t where "t = [OpenFifos r b, AttachStdio io, CloseFifos io, CancelCtx]"
      have a: "?A t" and res: "fst (start X r cp cpd c) = Some e"
        using start_attach_fails [OF sp op at] by (simp_all add: t_def io_def b_def)
      have norpc: "\<forall>req. CreateContainerRPC req \<notin> set t" by (simp add: t_def)
      then have b: "?B t" by blast
      have "t = [OpenFifos r b] @ AttachStdio io # CloseFifos io # [CancelCtx]"
        by (simp add: t_def)
      then have ex: "\<exists>pre post. t = pre @ AttachStdio io # CloseFifos io # post"
        by blast
      have c: "?C t"
      proof (intro allI impI)
        fix sp' opened' e'
        assume h: "spec X r c = Inr sp' \<and> fst (openFifos X r (ProcessTerminal sp') (paths (world c))) = Inr opened'
                   \<and> attachStdio X (wrapStdin opened') = Some e'"
        with sp have "sp' = sp" by simp
        with h op have "opened' = opened" by simp
        with h at have "e' = e" by simp
        show "fst (start X r cp cpd c) = Some e'
              \<and> (\<forall>req. CreateContainerRPC req \<notin> set t)
              \<and> (\<exists>pre post. t = pre @ AttachStdio (wrapStdin opened')
                                   # CloseFifos (wrapStdin opened') # post)"
          using res norpc ex \<open>e' = e\<close> \<open>opened' = opened\<close> unfolding io_def by simp
      qed
      from a b c show ?thesis by (intro exI [of _ t] conjI)
    next
      case None
      then have at: "attachStdio X (wrapStdin opened) = None" by (simp add: io_def)
      define req where "req = request r cp cpd c"
      have c_any: "\<And>t. ?C t" using sp op at by auto
      show ?thesis
      proof (cases "CreateContainer X req")
        case (Inl e)
        then have cr: "CreateContainer X (request r cp cpd c) = Inl e" by (simp add: req_def)
        define post where "post = [CreateContainerRPC req, CloseFifos io, CancelCtx]"
        define t where "t = [OpenFifos r b] @ AttachStdio io # post"
        have a: "?A t"
          using start_create_fails(2) [OF sp op at cr]
          by (simp add: t_def post_def io_def b_def req_def)
        have mem: "\<And>q. CreateContainerRPC q \<in> set t \<Longrightarrow> q = req"
          by (auto simp: t_def post_def)
        have "CreateContainerRPC req \<notin> set [OpenFifos r b]" by simp
        moreover have "CreateContainerRPC req \<in> set post" by (simp add: post_def)
        ultimately have b: "?B t"
          using sp op at mem unfolding io_def t_def by blast
        from a b c_any [of t] show ?thesis by (intro exI [of _ t] conjI)
      next
        case (Inr pid)
        then have cr: "CreateContainer X (request r cp cpd c) = Inr pid" by (simp add: req_def)
        define st where "st = \<lparr>State = StateStart, SysPid = pid, ExitCode = 0,
                               ProcessID = [], OOMKilled = False\<rparr>"
        define post where "post = [CreateContainerRPC req, CloseReady,
                                   StateChangedCall (containerID (objs c r)) st, CancelCtx]"
        define t where "t = [OpenFifos r b] @ AttachStdio io # post"
        have a: "?A t"
          using start_created(2) [OF sp op at cr]
          by (simp add: t_def post_def io_def b_def req_def st_def)
        have mem: "\<And>q. CreateContainerRPC q \<in> set t \<Longrightarrow> q = req"
          by (auto simp: t_def post_def)
        have "CreateContainerRPC req \<notin> set [OpenFifos r b]" by simp
        moreover have "CreateContainerRPC req \<in> set post" by (simp add: post_def)
        ultimately have b: "?B t"
          using sp op at mem unfolding io_def t_def by blast
        from a b c_any [of t] show ?thesis by (intro exI [of _ t] conjI)
      qed
    qed
  qed
qed

theorem attachStdio_before_create_witness:
  "fst (start XattachFails 8 [] [] cS) = Some (Err ''attach failed'')
   \<and> (\<forall>req. CreateContainerRPC req \<notin> set (trace (snd (start XattachFails 8 [] [] cS))))"
proof -
  have sp: "spec XattachFails 8 cS = Inr \<lparr>ProcessTerminal = False\<rparr>"
    by (rule spec_cS) (simp add: XattachFails_simps)
  have op: "fst (openFifos XattachFails 8 (ProcessTerminal \<lparr>ProcessTerminal = False\<rparr>) (paths (world cS))) = Inr pipes0"
    by (simp add: XattachFails_simps)
  have at: "attachStdio XattachFails (wrapStdin pipes0) = Some (Err ''attach failed'')"
    by (simp add: XattachFails_simps)
  from attachStdio_before_create [of XattachFails 8 "[]" "[]" cS]
  obtain t where t: "trace (snd (start XattachFails 8 [] [] cS)) = trace cS @ t"
    and f: "\<forall>sp opened e.
           spec XattachFails 8 cS = Inr sp
           \<and> fst (openFifos XattachFails 8 (ProcessTerminal sp) (paths (world cS))) = Inr opened
           \<and> attachStdio XattachFails (wrapStdin opened) = Some e \<longrightarrow>
             fst (start XattachFails 8 [] [] cS) = Some e
           \<and> (\<forall>req. CreateContainerRPC req \<notin> set t)
           \<and> (\<exists>pre post. t = pre @ AttachStdio (wrapStdin opened)
                                  # CloseFifos (wrapStdin opened) # post)"
    by blast
  from f sp op at have "fst (start XattachFails 8 [] [] cS) = Some (Err ''attach failed'')
           \<and> (\<forall>req. CreateContainerRPC req \<notin> set t)"
    by blast
  then show ?thesis using t by (simp add: cS_simps)
qed

section \<open>Properties of Create\<close>













text \<open>
  C5, at an input where it fails. The container's directory holds no specification
  file, so reading it back fails; \<open>start\<close> returns \<open>nil\<close> although no init system id
  was recorded: the client is exactly as before, the container's pid still \<open>0\<close>, while
  the shim would have answered \<open>4242\<close>.
\<close>

theorem start_unreadable_spec_returns_nil:
  "spec Xok 8 cNoSpec = Inl ENOENT
   \<and> start Xok 8 [] [] cNoSpec = (None, cNoSpec)
   \<and> systemPid (objs (snd (start Xok 8 [] [] cNoSpec)) 8) = 0
   \<and> CreateContainer Xok (request 8 [] [] cNoSpec) = Inr 4242"
proof -
  have s: "spec Xok 8 cNoSpec = Inl ENOENT" by (rule spec_cNoSpec)
  have "start Xok 8 [] [] cNoSpec = (None, cNoSpec)" using s by (rule start_spec_fails)
  then show ?thesis using s by (simp add: cNoSpec_def cS_def ctr2_simps Xok_simps)
qed

section \<open>Properties of a second start\<close>

lemma s0_simps:
  "sContainers s0 = [''c1'' \<mapsto> \<lparr>container = 1\<rparr>]" "startTasks s0 = []"
  by (simp_all add: s0_def)

lemma t0_simps: "ID t0 = ''c1''"
  by (simp add: t0_def)



section \<open>Properties of the stdin wrapper\<close>

lemma winv_wrapper0: "winv wrapper0"
  by (simp add: winv_def wrapper0_def)

lemma wstep_winv:
  assumes "winv s" and "wstep a s = Some s'"
  shows "winv s'"
proof (cases a)
  case CallClose
  with assms show ?thesis by (auto simp: winv_def split: if_splits)
next
  case Acknowledge
  with assms show ?thesis by (auto simp: winv_def split: if_splits)
next
  case Return
  with assms show ?thesis by (auto simp: winv_def split: if_splits)
next
  case (Run i)
  with assms show ?thesis
    by (auto simp: winv_def split: if_splits goroutine.splits)
qed

lemma wrun_winv: "winv s \<Longrightarrow> wrun as s = Some s' \<Longrightarrow> winv s'"
proof (induction as arbitrary: s)
  case Nil
  then show ?case by simp
next
  case (Cons a as)
  then show ?case by (auto split: option.splits dest: wstep_winv)
qed

lemma wstep_abandoned:
  assumes "ctxDone s" and "\<not> ready s" and "wstep a s = Some s'"
  shows "ctxDone s' \<and> \<not> ready s' \<and> closeStdinSent s' = closeStdinSent s"
  using assms by (cases a) (auto split: if_splits goroutine.splits)

lemma wrun_abandoned:
  "ctxDone s \<Longrightarrow> \<not> ready s \<Longrightarrow> wrun bs s = Some s' \<Longrightarrow>
   ctxDone s' \<and> \<not> ready s' \<and> closeStdinSent s' = closeStdinSent s"
proof (induction bs arbitrary: s)
  case Nil
  then show ?case by simp
next
  case (Cons b bs)
  from Cons.prems obtain s1 where s1: "wstep b s = Some s1" and r: "wrun bs s1 = Some s'"
    by (auto split: option.splits)
  from wstep_abandoned [OF Cons.prems(1,2) s1] Cons.IH [OF _ _ r]
  show ?case by simp
qed

lemma wstep_ready_mono: "ready s \<Longrightarrow> wstep a s = Some s' \<Longrightarrow> ready s'"
  by (cases a) (auto split: if_splits goroutine.splits)

lemma start_CloseReady:
  assumes "CloseReady \<in> set (trace (snd (start X r cp cpd c)))"
    and "CloseReady \<notin> set (trace c)"
  shows "\<exists>pid. CreateContainer X (request r cp cpd c) = Inr pid"
proof (cases "spec X r c")
  case (Inl e)
  with assms show ?thesis by (simp add: start_spec_fails)
next
  case (Inr sp)
  note sp = this
  show ?thesis
  proof (cases "fst (openFifos X r (ProcessTerminal sp) (paths (world c)))")
    case (Inl e)
    with assms start_open_fails(2) [OF sp Inl, of cp cpd] show ?thesis by simp
  next
    case (Inr opened)
    note op = this
    show ?thesis
    proof (cases "attachStdio X (wrapStdin opened)")
      case (Some e)
      with assms start_attach_fails(2) [OF sp op Some, of cp cpd] show ?thesis by simp
    next
      case None
      show ?thesis
      proof (cases "CreateContainer X (request r cp cpd c)")
        case (Inl e)
        with assms start_create_fails(2) [OF sp op None Inl] show ?thesis by simp
      next
        case (Inr pid)
        then show ?thesis by blast
      qed
    qed
  qed
qed

text \<open>
  C9. The first call of \<open>Close\<close> on the wrapped writer closes the underlying pipe in
  that very step, and every later call changes nothing. For every state \<open>s\<close> the
  wrapper reaches, under any interleaving of close calls, goroutine steps and the moves
  of \<open>start\<close>: the pipe was closed at most once; a notification was sent at most once,
  and only if \<open>ready\<close> had been closed; a goroutine step that sends it starts from a
  state where \<open>ready\<close> is closed; and if in \<open>s\<close> the context is cancelled while \<open>ready\<close>
  is not closed, no notification has been sent and none is sent in any continuation.
  In \<open>start\<close> itself, \<open>close(ready)\<close> is among the effects only when the create RPC
  has answered with a system pid.
\<close>

theorem stdin_close_deferred:
  assumes "wrun as wrapper0 = Some s"
  shows "(\<not> stdinOnce s \<longrightarrow>
            (\<exists>s'. wstep CallClose s = Some s' \<and> stdinOnce s'
                 \<and> stdinCloses s' = stdinCloses s + 1))
       \<and> (stdinOnce s \<longrightarrow> wstep CallClose s = Some s)
       \<and> stdinCloses s \<le> 1
       \<and> closeStdinSent s \<le> 1
       \<and> (closeStdinSent s > 0 \<longrightarrow> ready s)
       \<and> (\<forall>i s'. wstep (Run i) s = Some s' \<and> closeStdinSent s' \<noteq> closeStdinSent s
              \<longrightarrow> ready s)
       \<and> (ctxDone s \<and> \<not> ready s \<longrightarrow>
            (\<forall>bs s'. wrun bs s = Some s' \<longrightarrow> closeStdinSent s' = 0 \<and> \<not> ready s'))
       \<and> (CloseReady \<in> set (trace (snd (start X r cp cpd c))) \<and> CloseReady \<notin> set (trace c)
            \<longrightarrow> (\<exists>pid. CreateContainer X (request r cp cpd c) = Inr pid))"
proof -
  have inv: "winv s"
    using winv_wrapper0 assms by (rule wrun_winv)
  have a: "\<not> stdinOnce s \<longrightarrow>
            (\<exists>s'. wstep CallClose s = Some s' \<and> stdinOnce s'
                 \<and> stdinCloses s' = stdinCloses s + 1)"
    by simp
  have b: "stdinOnce s \<longrightarrow> wstep CallClose s = Some s"
    by simp
  have c: "stdinCloses s \<le> 1" "closeStdinSent s \<le> 1" "closeStdinSent s > 0 \<longrightarrow> ready s"
    using inv by (auto simp: winv_def split: if_splits)
  have d: "\<forall>i s'. wstep (Run i) s = Some s' \<and> closeStdinSent s' \<noteq> closeStdinSent s
              \<longrightarrow> ready s"
  proof (intro allI impI)
    fix i s'
    assume h: "wstep (Run i) s = Some s' \<and> closeStdinSent s' \<noteq> closeStdinSent s"
    then show "ready s"
      by (cases "goroutines s ! i") (auto split: if_splits)
  qed
  have e: "ctxDone s \<and> \<not> ready s \<longrightarrow>
            (\<forall>bs s'. wrun bs s = Some s' \<longrightarrow> closeStdinSent s' = 0 \<and> \<not> ready s')"
  proof (intro impI allI)
    fix bs s'
    assume h: "ctxDone s \<and> \<not> ready s" and r: "wrun bs s = Some s'"
    from h c(3) have z: "closeStdinSent s = 0" by auto
    from h wrun_abandoned [of s bs s'] r z
    show "closeStdinSent s' = 0 \<and> \<not> ready s'" by simp
  qed
  have f: "CloseReady \<in> set (trace (snd (start X r cp cpd c))) \<and> CloseReady \<notin> set (trace c)
            \<longrightarrow> (\<exists>pid. CreateContainer X (request r cp cpd c) = Inr pid)"
    using start_CloseReady [of X r cp cpd c] by blast
  show ?thesis
    by (intro conjI) (rule a, rule b, rule c(1), rule c(2), rule c(3), rule d, rule e, rule f)
qed

theorem stdin_close_deferred_witness:
  "(\<exists>s. wrun [CallClose, Return] wrapper0 = Some s
        \<and> stdinCloses s = 1 \<and> ctxDone s \<and> \<not> ready s
        \<and> (\<forall>s'. wrun [Run 0, Run 0, CallClose] s = Some s' \<longrightarrow> closeStdinSent s' = 0))
   \<and> (\<exists>s. wrun [CallClose, Run 0] wrapper0 = None
        \<and> wrun [CallClose, Acknowledge, Return, Run 0, Run 0, CallClose] wrapper0 = Some s
        \<and> closeStdinSent s = 1 \<and> stdinCloses s = 1)"
proof -
  define s1 where "s1 = \<lparr>stdinOnce = True, stdinCloses = 1, ready = False, ctxDone = True,
                          goroutines = [FirstSelect], closeStdinSent = 0\<rparr>"
  have r1: "wrun [CallClose, Return] wrapper0 = Some s1"
    by (simp add: wrapper0_def s1_def)
  from stdin_close_deferred [OF r1]
  have "ctxDone s1 \<and> \<not> ready s1 \<longrightarrow>
          (\<forall>bs s'. wrun bs s1 = Some s' \<longrightarrow> closeStdinSent s' = 0 \<and> \<not> ready s')"
    by blast
  moreover have f: "stdinCloses s1 = 1 \<and> ctxDone s1 \<and> \<not> ready s1"
    by (simp add: s1_def)
  ultimately have "\<forall>s'. wrun [Run 0, Run 0, CallClose] s1 = Some s' \<longrightarrow> closeStdinSent s' = 0"
    by blast
  with r1 f have first: "\<exists>s. wrun [CallClose, Return] wrapper0 = Some s
        \<and> stdinCloses s = 1 \<and> ctxDone s \<and> \<not> ready s
        \<and> (\<forall>s'. wrun [Run 0, Run 0, CallClose] s = Some s' \<longrightarrow> closeStdinSent s' = 0)"
    by blast
  define s2 where "s2 = \<lparr>stdinOnce = True, stdinCloses = 1, ready = True, ctxDone = True,
                          goroutines = [Finished], closeStdinSent = 1\<rparr>"
  have "wrun [CallClose, Run 0] wrapper0 = None"
    by (simp add: wrapper0_def)
  moreover have "wrun [CallClose, Acknowledge, Return, Run 0, Run 0, CallClose] wrapper0 = Some s2"
    by (simp add: wrapper0_def s2_def)
  moreover have "closeStdinSent s2 = 1 \<and> stdinCloses s2 = 1" by (simp add: s2_def)
  ultimately have second: "\<exists>s. wrun [CallClose, Run 0] wrapper0 = None
        \<and> wrun [CallClose, Acknowledge, Return, Run 0, Run 0, CallClose] wrapper0 = Some s
        \<and> closeStdinSent s = 1 \<and> stdinCloses s = 1"
    by blast
  from first second show ?thesis by blast
qed

end
